theory Spec2Isabelle
  imports Complex_Main "HOL-Library.Multiset"
begin

section \<open>The period-based compounding projection engine\<close>

text \<open>
  This theory embeds \<^verbatim>\<open>calculateGrowth\<close> of the calculator module (the version with
  inflation, per-period return overrides and the ISK tax) and states the properties of its
  yearly snapshot sequence.

  Numbers. The source computes in JavaScript \<^verbatim>\<open>number\<close>s (IEEE-754 doubles). They are
  idealised here as \<^typ>\<open>real\<close>: every operation is the exact one, so rounding, overflow
  to an infinity and NaN are outside the model. The loop counter \<^verbatim>\<open>month\<close> only takes
  the values 1, 2, 3, ... and is a \<^typ>\<open>nat\<close>; \<^verbatim>\<open>month % 12\<close> is \<open>mod\<close> on it.

  Optional fields and parameters (\<^verbatim>\<open>annualReturn?\<close>, \<^verbatim>\<open>endAge?\<close>, \<^verbatim>\<open>inflationRate?\<close>,
  \<^verbatim>\<open>iskTax?\<close>) are \<open>option\<close>s: \<open>None\<close> is \<^verbatim>\<open>undefined\<close>. An object is the record
  of its fields: two regimes with equal fields are the same regime.
\<close>

subsection \<open>Data model\<close>

record Period =
  startAge :: real
  endAge :: real
  monthlyContribution :: real
  monthlySpending :: real
  annualReturn :: "real option"

record IskTax =
  enabled :: bool
  governmentBorrowingRate :: real

text \<open>
  The fields \<^verbatim>\<open>annualReturn\<close> and \<^verbatim>\<open>endAge\<close> of \<^verbatim>\<open>CalculationInputs\<close> carry the suffix
  \<open>_in\<close>, since \<^verbatim>\<open>Period\<close> has fields of the same names.
\<close>

record CalculationInputs =
  initialAmount :: real
  periods :: "Period list"
  annualReturn_in :: real
  endAge_in :: "real option"
  inflationRate :: "real option"
  iskTax :: "IskTax option"

record YearlyBalance =
  age :: real
  balance :: real
  realBalance :: real
  contributions :: real
  growth :: real
  withdrawalRate :: real
  taxPaid :: real

text \<open>The single error of the engine: \<^verbatim>\<open>throw new Error('At least one period is required')\<close>.\<close>

datatype error = Error string

subsection \<open>Library functions of the source language\<close>

text \<open>
  \<^verbatim>\<open>Math.pow\<close> on the reals: for an integral exponent it is the integer power (defined for
  every base, \<^verbatim>\<open>Math.pow(0, 0)\<close> is 1), otherwise the real power. Where JavaScript
  answers NaN (negative base, fractional exponent) or an infinity (base 0, negative
  exponent) the model has some real number; no statement below depends on it there.
\<close>

definition Math_pow :: "real \<Rightarrow> real \<Rightarrow> real" where
  "Math_pow x y = (if of_int \<lfloor>y\<rfloor> = y then x powi \<lfloor>y\<rfloor> else x powr y)"

text \<open>
  \<^verbatim>\<open>[...periods].sort((a, b) => a.startAge - b.startAge)\<close>: a copy of the list, sorted by
  \<^verbatim>\<open>startAge\<close>. \<^verbatim>\<open>Array.prototype.sort\<close> is stable (ECMAScript 2019), as is the
  insertion sort \<^const>\<open>sort_key\<close>.
\<close>

definition sortPeriods :: "Period list \<Rightarrow> Period list" where
  "sortPeriods ps = sort_key startAge ps"

subsection \<open>The engine\<close>

text \<open>The helper closure \<^verbatim>\<open>getPeriodForAge\<close>; the list it scans is its first argument.\<close>

fun getPeriodForAge :: "Period list \<Rightarrow> real \<Rightarrow> Period option" where
  "getPeriodForAge [] a = None"
| "getPeriodForAge (period # rest) a =
     (if a \<ge> startAge period \<and> a < endAge period then Some period
      else getPeriodForAge rest a)"

text \<open>The \<^verbatim>\<open>let\<close> variables of \<^verbatim>\<open>calculateGrowth\<close> and the array it pushes to.\<close>

record LoopState =
  balance_var :: real
  inflationMultiplier :: real
  cumulativeTaxPaid :: real
  totalContributions :: real
  yearlyBalances :: "YearlyBalance list"

text \<open>The default parameters \<^verbatim>\<open>endAge = 100\<close> and \<^verbatim>\<open>inflationRate = 0\<close>.\<close>

definition endAge_dflt :: "CalculationInputs \<Rightarrow> real" where
  "endAge_dflt inp = (case endAge_in inp of None \<Rightarrow> 100 | Some e \<Rightarrow> e)"

definition inflationRate_dflt :: "CalculationInputs \<Rightarrow> real" where
  "inflationRate_dflt inp = (case inflationRate inp of None \<Rightarrow> 0 | Some r \<Rightarrow> r)"

definition inflation :: "CalculationInputs \<Rightarrow> real" where
  "inflation inp = inflationRate_dflt inp / 100"

definition monthlyInflationFactor :: "CalculationInputs \<Rightarrow> real" where
  "monthlyInflationFactor inp = Math_pow (1 + inflation inp) (1 / 12)"

text \<open>\<^verbatim>\<open>activePeriod?.annualReturn ?? annualReturn\<close>\<close>

definition effectiveReturn :: "CalculationInputs \<Rightarrow> Period option \<Rightarrow> real" where
  "effectiveReturn inp activePeriod =
     (case activePeriod of
        None \<Rightarrow> annualReturn_in inp
      | Some p \<Rightarrow> (case annualReturn p of None \<Rightarrow> annualReturn_in inp | Some r \<Rightarrow> r))"

text \<open>\<^verbatim>\<open>iskTax?.enabled\<close>\<close>

definition iskEnabled :: "CalculationInputs \<Rightarrow> bool" where
  "iskEnabled inp = (case iskTax inp of None \<Rightarrow> False | Some t \<Rightarrow> enabled t)"

definition iskRate :: "CalculationInputs \<Rightarrow> real" where
  "iskRate inp = (case iskTax inp of None \<Rightarrow> 0 | Some t \<Rightarrow> governmentBorrowingRate t)"

text \<open>
  The part of the loop body before \<^verbatim>\<open>if (month % 12 === 0)\<close>: growth, inflation,
  contribution and spending of one month.
\<close>

definition monthStep ::
  "CalculationInputs \<Rightarrow> Period list \<Rightarrow> real \<Rightarrow> nat \<Rightarrow> LoopState \<Rightarrow> LoopState" where
  "monthStep inp sortedPeriods startAge0 month st =
     (let currentAge = startAge0 + (real month - 1) / 12;
          activePeriod = getPeriodForAge sortedPeriods currentAge;
          monthlyRate = effectiveReturn inp activePeriod / 100 / 12;
          balance1 = balance_var st * (1 + monthlyRate);
          inflationMultiplier1 = inflationMultiplier st * monthlyInflationFactor inp
      in case activePeriod of
           None \<Rightarrow>
             st\<lparr>balance_var := balance1, inflationMultiplier := inflationMultiplier1\<rparr>
         | Some p \<Rightarrow>
             st\<lparr>balance_var :=
                   balance1 + monthlyContribution p - monthlySpending p * inflationMultiplier1,
                 inflationMultiplier := inflationMultiplier1,
                 totalContributions := totalContributions st + monthlyContribution p\<rparr>)"

text \<open>The body of \<^verbatim>\<open>if (month % 12 === 0)\<close>: the tax and the snapshot of the year.\<close>

definition yearEnd ::
  "CalculationInputs \<Rightarrow> Period list \<Rightarrow> real \<Rightarrow> nat \<Rightarrow> LoopState \<Rightarrow> LoopState" where
  "yearEnd inp sortedPeriods startAge0 month st =
     (let age0 = startAge0 + real month / 12;
          yearsElapsed = real month / 12;
          annualTax = balance_var st * (iskRate inp / 100) * 0.30;
          balance1 = (if iskEnabled inp then balance_var st - annualTax else balance_var st);
          cumulativeTaxPaid1 =
            (if iskEnabled inp then cumulativeTaxPaid st + annualTax else cumulativeTaxPaid st);
          growth0 = balance1 - totalContributions st;
          currentPeriod = getPeriodForAge sortedPeriods age0;
          annualSpending =
            (case currentPeriod of
               None \<Rightarrow> 0
             | Some p \<Rightarrow> monthlySpending p * 12 * inflationMultiplier st);
          withdrawalRate0 = (if balance1 > 0 then (annualSpending / balance1) * 100 else 0);
          realBalance0 = balance1 / Math_pow (1 + inflation inp) yearsElapsed
      in st\<lparr>balance_var := balance1,
            cumulativeTaxPaid := cumulativeTaxPaid1,
            yearlyBalances := yearlyBalances st @
              [\<lparr>age = age0, balance = balance1, realBalance = realBalance0,
                contributions = totalContributions st, growth = growth0,
                withdrawalRate = withdrawalRate0, taxPaid = cumulativeTaxPaid1\<rparr>]\<rparr>)"

definition loopBody ::
  "CalculationInputs \<Rightarrow> Period list \<Rightarrow> real \<Rightarrow> nat \<Rightarrow> LoopState \<Rightarrow> LoopState" where
  "loopBody inp sortedPeriods startAge0 month st =
     (let st1 = monthStep inp sortedPeriods startAge0 month st
      in if month mod 12 = 0 then yearEnd inp sortedPeriods startAge0 month st1 else st1)"

text \<open>\<^verbatim>\<open>for (let month = 1; month <= months; month++)\<close>, entered at \<open>month\<close>.\<close>

function loop ::
  "CalculationInputs \<Rightarrow> Period list \<Rightarrow> real \<Rightarrow> real \<Rightarrow> nat \<Rightarrow> LoopState \<Rightarrow> LoopState" where
  "loop inp sortedPeriods startAge0 months month st =
     (if real month \<le> months
      then loop inp sortedPeriods startAge0 months (Suc month)
             (loopBody inp sortedPeriods startAge0 month st)
      else st)"
  by pat_completeness auto
termination
proof (relation "measure (\<lambda>(inp, sp, s, months, month, st). nat \<lfloor>months\<rfloor> + 1 - month)")
  show "wf (measure (\<lambda>(inp :: CalculationInputs, sp :: Period list, s :: real, months :: real,
                        month :: nat, st :: LoopState). nat \<lfloor>months\<rfloor> + 1 - month))"
    by simp
next
  fix inp :: CalculationInputs and sortedPeriods :: "Period list" and startAge0 months :: real
    and month :: nat and st :: LoopState
  assume "real month \<le> months"
  then have "month \<le> nat \<lfloor>months\<rfloor>"
    by (rule le_nat_floor)
  then show "((inp, sortedPeriods, startAge0, months, Suc month,
                loopBody inp sortedPeriods startAge0 month st),
              (inp, sortedPeriods, startAge0, months, month, st))
             \<in> measure (\<lambda>(inp, sp, s, months, month, st). nat \<lfloor>months\<rfloor> + 1 - month)"
    by simp
qed

declare loop.simps [simp del]

text \<open>The state before the loop, with the first snapshot pushed.\<close>

definition initialState :: "CalculationInputs \<Rightarrow> Period list \<Rightarrow> real \<Rightarrow> LoopState" where
  "initialState inp sortedPeriods startAge0 =
     (let balance0 = initialAmount inp;
          initialPeriod = getPeriodForAge sortedPeriods startAge0;
          initialAnnualSpending =
            (case initialPeriod of None \<Rightarrow> 0 | Some p \<Rightarrow> monthlySpending p * 12);
          initialWithdrawalRate =
            (if balance0 > 0 then (initialAnnualSpending / balance0) * 100 else 0)
      in \<lparr>balance_var = balance0, inflationMultiplier = 1, cumulativeTaxPaid = 0,
          totalContributions = initialAmount inp,
          yearlyBalances =
            [\<lparr>age = startAge0, balance = balance0, realBalance = balance0,
              contributions = initialAmount inp, growth = 0,
              withdrawalRate = initialWithdrawalRate, taxPaid = 0\<rparr>]\<rparr>)"

definition calculateGrowth :: "CalculationInputs \<Rightarrow> error + YearlyBalance list" where
  "calculateGrowth inp =
     (let sortedPeriods = sortPeriods (periods inp)
      in case sortedPeriods of
           [] \<Rightarrow> Inl (Error ''At least one period is required'')
         | first # _ \<Rightarrow>
             (let startAge0 = startAge first;
                  totalYears = endAge_dflt inp - startAge0;
                  months = totalYears * 12
              in Inr (yearlyBalances
                        (loop inp sortedPeriods startAge0 months 1
                           (initialState inp sortedPeriods startAge0)))))"

subsection \<open>The monthly-step definition of the specification\<close>

text \<open>
  The reference definition that the trajectory is compared with. It is written from the
  prose of the design (start age, active regime, the five steps of a month, the first
  snapshot and the yearly snapshot), as a state after \<open>m\<close> months and a snapshot after
  \<open>y\<close> years, and not from the loop above.
\<close>

text \<open>The half-open interval \<open>[startAge, endAge)\<close> of a regime contains an age.\<close>

definition inInterval :: "Period \<Rightarrow> real \<Rightarrow> bool" where
  "inInterval p a = (startAge p \<le> a \<and> a < endAge p)"

text \<open>The start age is the minimum \<^verbatim>\<open>startAge\<close> among the regimes.\<close>

definition spec_startAge :: "CalculationInputs \<Rightarrow> real" where
  "spec_startAge inp = Min (startAge ` set (periods inp))"

text \<open>The span in years times 12; month indices run over \<open>1..totalMonths\<close>.\<close>

definition spec_totalMonths :: "CalculationInputs \<Rightarrow> nat" where
  "spec_totalMonths inp = nat \<lfloor>(endAge_dflt inp - spec_startAge inp) * 12\<rfloor>"

text \<open>The first regime, in ascending \<^verbatim>\<open>startAge\<close> order, whose interval contains the age.\<close>

definition spec_active :: "CalculationInputs \<Rightarrow> real \<Rightarrow> Period option" where
  "spec_active inp a = find (\<lambda>p. inInterval p a) (sort_key startAge (periods inp))"

record SpecState =
  s_balance :: real
  s_inflation :: real
  s_contributions :: real
  s_tax :: real

definition spec_month :: "CalculationInputs \<Rightarrow> nat \<Rightarrow> SpecState \<Rightarrow> SpecState" where
  "spec_month inp m s =
     (let regime = spec_active inp (spec_startAge inp + (real m - 1) / 12);
          annual = (case regime of
                      None \<Rightarrow> annualReturn_in inp
                    | Some r \<Rightarrow> (case annualReturn r of
                                   None \<Rightarrow> annualReturn_in inp
                                 | Some override \<Rightarrow> override));
          grown = s_balance s * (1 + annual / 100 / 12);
          infl = s_inflation s * (1 + inflationRate_dflt inp / 100) powr (1 / 12);
          flows = (case regime of
                     None \<Rightarrow> grown
                   | Some r \<Rightarrow> grown + monthlyContribution r - monthlySpending r * infl);
          contrib = (case regime of
                       None \<Rightarrow> s_contributions s
                     | Some r \<Rightarrow> s_contributions s + monthlyContribution r);
          tax = (case iskTax inp of
                   None \<Rightarrow> 0
                 | Some policy \<Rightarrow>
                     if m mod 12 = 0 \<and> enabled policy
                     then flows * (governmentBorrowingRate policy / 100) * 0.30
                     else 0)
      in \<lparr>s_balance = flows - tax, s_inflation = infl, s_contributions = contrib,
          s_tax = s_tax s + tax\<rparr>)"

primrec spec_after :: "CalculationInputs \<Rightarrow> nat \<Rightarrow> SpecState" where
  "spec_after inp 0 =
     \<lparr>s_balance = initialAmount inp, s_inflation = 1,
      s_contributions = initialAmount inp, s_tax = 0\<rparr>"
| "spec_after inp (Suc k) = spec_month inp (Suc k) (spec_after inp k)"

definition spec_first :: "CalculationInputs \<Rightarrow> YearlyBalance" where
  "spec_first inp =
     \<lparr>age = spec_startAge inp, balance = initialAmount inp, realBalance = initialAmount inp,
      contributions = initialAmount inp, growth = 0,
      withdrawalRate =
        (case spec_active inp (spec_startAge inp) of
           None \<Rightarrow> 0
         | Some r \<Rightarrow> if initialAmount inp \<le> 0 then 0
                     else (monthlySpending r * 12 / initialAmount inp) * 100),
      taxPaid = 0\<rparr>"

definition spec_snapshot :: "CalculationInputs \<Rightarrow> nat \<Rightarrow> YearlyBalance" where
  "spec_snapshot inp y =
     (let s = spec_after inp (12 * y)
      in \<lparr>age = spec_startAge inp + real y,
          balance = s_balance s,
          realBalance = s_balance s / (1 + inflationRate_dflt inp / 100) ^ y,
          contributions = s_contributions s,
          growth = s_balance s - s_contributions s,
          withdrawalRate =
            (case spec_active inp (spec_startAge inp + real y) of
               None \<Rightarrow> 0
             | Some r \<Rightarrow> if s_balance s \<le> 0 then 0
                         else (monthlySpending r * 12 * s_inflation s / s_balance s) * 100),
          taxPaid = s_tax s\<rparr>)"

definition spec_trajectory :: "CalculationInputs \<Rightarrow> YearlyBalance list" where
  "spec_trajectory inp =
     spec_first inp # map (spec_snapshot inp) [1 ..< Suc (spec_totalMonths inp div 12)]"

subsection \<open>The state after a number of iterations\<close>

text \<open>
  \<open>stateAfter inp sp a k\<close> is the state of the variables when the loop has run its body
  for the months \<open>1, \<dots>, k\<close>; the loop, entered at month 1 with bound \<open>months\<close>, stops
  in the state after \<open>nat \<lfloor>months\<rfloor>\<close> iterations (lemma \<open>loop_stateAfter\<close>).
\<close>

primrec stateAfter :: "CalculationInputs \<Rightarrow> Period list \<Rightarrow> real \<Rightarrow> nat \<Rightarrow> LoopState" where
  "stateAfter inp sp a 0 = initialState inp sp a"
| "stateAfter inp sp a (Suc k) = loopBody inp sp a (Suc k) (stateAfter inp sp a k)"

definition startAgeOf :: "CalculationInputs \<Rightarrow> real" where
  "startAgeOf inp = startAge (hd (sortPeriods (periods inp)))"

definition monthsOf :: "CalculationInputs \<Rightarrow> real" where
  "monthsOf inp = (endAge_dflt inp - startAgeOf inp) * 12"

definition finalState :: "CalculationInputs \<Rightarrow> LoopState" where
  "finalState inp =
     stateAfter inp (sortPeriods (periods inp)) (startAgeOf inp) (nat \<lfloor>monthsOf inp\<rfloor>)"

text \<open>The variables of the loop, seen as a state of the monthly-step definition.\<close>

definition absState :: "LoopState \<Rightarrow> SpecState" where
  "absState st =
     \<lparr>s_balance = balance_var st, s_inflation = inflationMultiplier st,
      s_contributions = totalContributions st, s_tax = cumulativeTaxPaid st\<rparr>"

subsection \<open>Example inputs\<close>

text \<open>One regime \<open>[30, 31)\<close> without contribution or spending, 12 percent return, horizon 31.\<close>

definition exYear :: CalculationInputs where
  "exYear =
     \<lparr>initialAmount = 10000,
      periods = [\<lparr>startAge = 30, endAge = 31, monthlyContribution = 0, monthlySpending = 0,
                  annualReturn = None\<rparr>],
      annualReturn_in = 12, endAge_in = Some 31, inflationRate = None, iskTax = None\<rparr>"

text \<open>No regime at all.\<close>

definition exEmpty :: CalculationInputs where
  "exEmpty =
     \<lparr>initialAmount = 10000, periods = [], annualReturn_in = 7, endAge_in = None,
      inflationRate = None, iskTax = None\<rparr>"

text \<open>A negative balance, a negative return and a horizon before the start age.\<close>

definition exDegenerate :: CalculationInputs where
  "exDegenerate =
     \<lparr>initialAmount = - 500,
      periods = [\<lparr>startAge = 30, endAge = 40, monthlyContribution = 100, monthlySpending = 0,
                  annualReturn = None\<rparr>],
      annualReturn_in = - 3, endAge_in = Some 25, inflationRate = None, iskTax = None\<rparr>"

text \<open>One million, two years without return, the tax enabled at 2.5 percent.\<close>

definition exTax :: CalculationInputs where
  "exTax =
     \<lparr>initialAmount = 1000000,
      periods = [\<lparr>startAge = 30, endAge = 32, monthlyContribution = 0, monthlySpending = 0,
                  annualReturn = None\<rparr>],
      annualReturn_in = 0, endAge_in = Some 32, inflationRate = None,
      iskTax = Some \<lparr>enabled = True, governmentBorrowingRate = 2.5\<rparr>\<rparr>"

text \<open>Depletion: 1000 spent at 100 a month for a year, the tax enabled at 2.5 percent.\<close>

definition exSpend :: CalculationInputs where
  "exSpend =
     \<lparr>initialAmount = 1000,
      periods = [\<lparr>startAge = 30, endAge = 31, monthlyContribution = 0, monthlySpending = 100,
                  annualReturn = None\<rparr>],
      annualReturn_in = 0, endAge_in = Some 31, inflationRate = None,
      iskTax = Some \<lparr>enabled = True, governmentBorrowingRate = 2.5\<rparr>\<rparr>"

text \<open>An overdrawn account, one year at 2 percent inflation.\<close>

definition exOverdrawn :: CalculationInputs where
  "exOverdrawn =
     \<lparr>initialAmount = - 1000,
      periods = [\<lparr>startAge = 30, endAge = 31, monthlyContribution = 0, monthlySpending = 0,
                  annualReturn = None\<rparr>],
      annualReturn_in = 0, endAge_in = Some 31, inflationRate = Some 2, iskTax = None\<rparr>"

text \<open>A positive balance, one year at 2 percent inflation.\<close>

definition exInflation :: CalculationInputs where
  "exInflation =
     \<lparr>initialAmount = 1000,
      periods = [\<lparr>startAge = 30, endAge = 31, monthlyContribution = 0, monthlySpending = 0,
                  annualReturn = None\<rparr>],
      annualReturn_in = 0, endAge_in = Some 31, inflationRate = Some 2, iskTax = None\<rparr>"

text \<open>Two regimes with the same \<^verbatim>\<open>startAge\<close>, both containing the age 35.\<close>

definition regimeA :: Period where
  "regimeA = \<lparr>startAge = 30, endAge = 40, monthlyContribution = 1, monthlySpending = 0,
               annualReturn = None\<rparr>"

definition regimeB :: Period where
  "regimeB = \<lparr>startAge = 30, endAge = 50, monthlyContribution = 2, monthlySpending = 0,
               annualReturn = None\<rparr>"

text \<open>Regimes given out of order, with the gap \<open>[35, 40)\<close> between them.\<close>

definition regimeEarly :: Period where
  "regimeEarly = \<lparr>startAge = 30, endAge = 35, monthlyContribution = 100, monthlySpending = 0,
                   annualReturn = Some 5\<rparr>"

definition regimeLate :: Period where
  "regimeLate = \<lparr>startAge = 40, endAge = 50, monthlyContribution = 0, monthlySpending = 50,
                  annualReturn = None\<rparr>"

definition exGap :: CalculationInputs where
  "exGap =
     \<lparr>initialAmount = 1000, periods = [regimeLate, regimeEarly], annualReturn_in = 12,
      endAge_in = Some 50, inflationRate = None, iskTax = None\<rparr>"

text \<open>A regime of length zero, listed before a regime of one year.\<close>

definition regimeZero :: Period where
  "regimeZero = \<lparr>startAge = 30, endAge = 30, monthlyContribution = 500, monthlySpending = 700,
                  annualReturn = Some 50\<rparr>"

definition exZeroLength :: CalculationInputs where
  "exZeroLength =
     \<lparr>initialAmount = 1000,
      periods = [regimeZero,
                 \<lparr>startAge = 30, endAge = 31, monthlyContribution = 0, monthlySpending = 0,
                  annualReturn = None\<rparr>],
      annualReturn_in = 0, endAge_in = Some 31, inflationRate = None, iskTax = None\<rparr>"

section \<open>Properties\<close>

text \<open>The equations that evaluate the engine on a concrete input.\<close>

lemmas engine_defs = calculateGrowth_def sortPeriods_def initialState_def loop.simps loopBody_def
  monthStep_def yearEnd_def Let_def effectiveReturn_def inflation_def monthlyInflationFactor_def
  iskEnabled_def iskRate_def Math_pow_def endAge_dflt_def inflationRate_dflt_def

subsection \<open>The loop\<close>

lemma loop_stateAfter:
  "loop inp sp a months (Suc k) (stateAfter inp sp a k) =
   stateAfter inp sp a (max k (nat \<lfloor>months\<rfloor>))"
proof (induction "nat \<lfloor>months\<rfloor> - k" arbitrary: k)
  case 0
  have "\<not> real (Suc k) \<le> months"
  proof
    assume "real (Suc k) \<le> months"
    then have "Suc k \<le> nat \<lfloor>months\<rfloor>" by (rule le_nat_floor)
    with 0 show False by simp
  qed
  then show ?case using 0 by (simp add: loop.simps max_def)
next
  case (Suc n)
  then have lt: "k < nat \<lfloor>months\<rfloor>" by simp
  then have "int (Suc k) \<le> \<lfloor>months\<rfloor>" by linarith
  then have "of_int (int (Suc k)) \<le> months" by (simp only: le_floor_iff)
  then have le: "real (Suc k) \<le> months" by simp
  have "n = nat \<lfloor>months\<rfloor> - Suc k" using Suc by simp
  then have "loop inp sp a months (Suc (Suc k)) (stateAfter inp sp a (Suc k)) =
         stateAfter inp sp a (max (Suc k) (nat \<lfloor>months\<rfloor>))"
    by (rule Suc.hyps(1))
  then show ?case using le lt
    by (subst loop.simps) (simp add: max_def)
qed

lemma calculateGrowth_empty:
  "periods inp = [] \<Longrightarrow> calculateGrowth inp = Inl (Error ''At least one period is required'')"
  by (simp add: calculateGrowth_def sortPeriods_def)

lemma sortPeriods_Nil_iff: "sortPeriods ps = [] \<longleftrightarrow> ps = []"
proof -
  have "length (sortPeriods ps) = length ps" by (simp add: sortPeriods_def)
  then show ?thesis by (metis length_0_conv)
qed

lemma calculateGrowth_nonempty:
  assumes "periods inp \<noteq> []"
  shows "calculateGrowth inp = Inr (yearlyBalances (finalState inp))"
proof -
  obtain first rest where sp: "sortPeriods (periods inp) = first # rest"
    using assms sortPeriods_Nil_iff by (cases "sortPeriods (periods inp)") auto
  have "loop inp (first # rest) (startAge first) ((endAge_dflt inp - startAge first) * 12) (Suc 0)
          (stateAfter inp (first # rest) (startAge first) 0) =
        stateAfter inp (first # rest) (startAge first)
          (max 0 (nat \<lfloor>(endAge_dflt inp - startAge first) * 12\<rfloor>))"
    by (rule loop_stateAfter)
  then show ?thesis
    by (simp add: calculateGrowth_def sp Let_def finalState_def startAgeOf_def monthsOf_def)
qed

subsection \<open>Snapshots\<close>

lemma monthStep_yearlyBalances [simp]:
  "yearlyBalances (monthStep inp sp a m st) = yearlyBalances st"
  by (simp add: monthStep_def Let_def split: option.split)

lemma monthStep_cumulativeTaxPaid [simp]:
  "cumulativeTaxPaid (monthStep inp sp a m st) = cumulativeTaxPaid st"
  by (simp add: monthStep_def Let_def split: option.split)

lemma yearEnd_pushes:
  "\<exists>s. yearlyBalances (yearEnd inp sp a m st) = yearlyBalances st @ [s] \<and>
       balance s = balance_var (yearEnd inp sp a m st) \<and>
       taxPaid s = cumulativeTaxPaid (yearEnd inp sp a m st) \<and>
       contributions s = totalContributions st \<and>
       growth s = balance s - contributions s \<and>
       realBalance s = balance s / Math_pow (1 + inflation inp) (real m / 12) \<and>
       age s = a + real m / 12"
  by (simp add: yearEnd_def Let_def)

lemma yearEnd_tax:
  "iskEnabled inp \<Longrightarrow>
     balance_var (yearEnd inp sp a m st) =
       balance_var st - balance_var st * (iskRate inp / 100) * 0.30 \<and>
     cumulativeTaxPaid (yearEnd inp sp a m st) =
       cumulativeTaxPaid st + balance_var st * (iskRate inp / 100) * 0.30"
  by (simp add: yearEnd_def Let_def)

lemma initialState_yearlyBalances:
  "\<exists>s. yearlyBalances (initialState inp sp a) = [s] \<and> age s = a \<and> balance s = initialAmount inp \<and>
       realBalance s = initialAmount inp \<and> contributions s = initialAmount inp \<and>
       growth s = 0 \<and> taxPaid s = 0"
  by (simp add: initialState_def Let_def)

lemma initialState_cumulativeTaxPaid [simp]:
  "cumulativeTaxPaid (initialState inp sp a) = 0"
  by (simp add: initialState_def Let_def)

text \<open>
  The array of snapshots is the first snapshot followed by what the year ends pushed:
  a property of every pushed snapshot is a property of every snapshot after the first.
\<close>

lemma stateAfter_snapshots:
  assumes step: "\<And>m st s. m mod 12 = 0 \<Longrightarrow> 0 < m \<Longrightarrow>
             yearlyBalances (yearEnd inp sp a m st) = yearlyBalances st @ [s] \<Longrightarrow> Q s"
  shows "\<exists>later. yearlyBalances (stateAfter inp sp a k) =
            yearlyBalances (initialState inp sp a) @ later \<and> (\<forall>s \<in> set later. Q s)"
proof (induction k)
  case 0
  show ?case by simp
next
  case (Suc k)
  then obtain later where later: "yearlyBalances (stateAfter inp sp a k) =
      yearlyBalances (initialState inp sp a) @ later" "\<forall>s \<in> set later. Q s"
    by blast
  show ?case
  proof (cases "Suc k mod 12 = 0")
    case True
    let ?st = "monthStep inp sp a (Suc k) (stateAfter inp sp a k)"
    obtain s where s: "yearlyBalances (yearEnd inp sp a (Suc k) ?st) = yearlyBalances ?st @ [s]"
      using yearEnd_pushes [of inp sp a "Suc k" ?st] by blast
    with True have "Q s" using step [of "Suc k" ?st s] by simp
    with later s True have "yearlyBalances (stateAfter inp sp a (Suc k)) = 
        yearlyBalances (initialState inp sp a) @ (later @ [s]) \<and> (\<forall>s \<in> set (later @ [s]). Q s)"
      by (simp add: loopBody_def Let_def)
    then show ?thesis by blast
  next
    case False
    with later show ?thesis by (auto simp add: loopBody_def Let_def)
  qed
qed

lemma Math_pow_one: "Math_pow 1 y = 1"
  by (simp add: Math_pow_def)

lemma Math_pow_of_nat: "Math_pow x (real n) = x ^ n"
  by (simp add: Math_pow_def)

lemma Math_pow_years:
  assumes "m mod 12 = 0"
  shows "Math_pow x (real m / 12) = x ^ (m div 12)"
proof -
  from assms have "m = 12 * (m div 12)" by presburger
  then have "real m = 12 * real (m div 12)"
    by (metis of_nat_mult of_nat_numeral)
  then have "real m / 12 = real (m div 12)" by simp
  then show ?thesis by (simp only: Math_pow_of_nat)
qed

lemma realBalance_eq_when_no_inflation:
  assumes "inflationRate_dflt inp = 0"
  shows "\<forall>s \<in> set (yearlyBalances (stateAfter inp sp a k)). realBalance s = balance s"
proof -
  have "\<And>m st s. yearlyBalances (yearEnd inp sp a m st) = yearlyBalances st @ [s] \<Longrightarrow>
          realBalance s = balance s"
    using assms by (simp add: yearEnd_def Let_def inflation_def Math_pow_one)
  then obtain later where "yearlyBalances (stateAfter inp sp a k) =
            yearlyBalances (initialState inp sp a) @ later" "\<forall>s \<in> set later. realBalance s = balance s"
    using stateAfter_snapshots [of inp sp a "\<lambda>s. realBalance s = balance s" k] by blast
  then show ?thesis using initialState_yearlyBalances [of inp sp a] by auto
qed

lemma deflate_cases:
  fixes b x :: real
  assumes "1 < x"
  shows "(0 < b \<longrightarrow> b / x < b) \<and> (b = 0 \<longrightarrow> b / x = b) \<and> (b < 0 \<longrightarrow> b < b / x)"
  using assms by (simp add: field_simps)

lemma tl_snapshots:
  "yearlyBalances (stateAfter inp sp a k) = yearlyBalances (initialState inp sp a) @ later \<Longrightarrow>
   tl (yearlyBalances (stateAfter inp sp a k)) = later"
  using initialState_yearlyBalances [of inp sp a] by auto

lemma realBalance_when_inflation:
  assumes "0 < inflationRate_dflt inp"
  shows "\<forall>s \<in> set (tl (yearlyBalances (stateAfter inp sp a k))).
           (0 < balance s \<longrightarrow> realBalance s < balance s) \<and>
           (balance s = 0 \<longrightarrow> realBalance s = balance s) \<and>
           (balance s < 0 \<longrightarrow> balance s < realBalance s)"
    (is "\<forall>s \<in> _. ?Q s")
proof -
  have "?Q s" if m: "m mod 12 = 0" "0 < m"
    and s: "yearlyBalances (yearEnd inp sp a m st) = yearlyBalances st @ [s]" for m st s
  proof -
    have "0 < m div 12" using m by presburger
    moreover have "1 < 1 + inflation inp" using assms by (simp add: inflation_def)
    ultimately have "1 < (1 + inflation inp) ^ (m div 12)"
      by (simp add: one_less_power)
    moreover have "realBalance s = balance s / (1 + inflation inp) ^ (m div 12)"
      using s yearEnd_pushes [of inp sp a m st] Math_pow_years [OF m(1)] by auto
    ultimately show ?thesis using deflate_cases by simp
  qed
  then obtain later where "yearlyBalances (stateAfter inp sp a k) =
            yearlyBalances (initialState inp sp a) @ later" "\<forall>s \<in> set later. ?Q s"
    using stateAfter_snapshots [of inp sp a ?Q k] by blast
  then show ?thesis using tl_snapshots by metis
qed

subsection \<open>Failure and success\<close>

text \<open>
  Claim C2. \<^verbatim>\<open>calculateGrowth\<close> fails exactly when the regime list is empty; on every
  other input (whatever the horizon, the returns and the balances are) it returns a
  sequence of snapshots. The loop of the model is a total function, so a result exists.
\<close>

theorem fails_iff_no_regime:
  "(\<exists>e. calculateGrowth inp = Inl e) = (periods inp = []) \<and>
   (\<exists>snaps. calculateGrowth inp = Inr snaps) = (periods inp \<noteq> [])"
  by (cases "periods inp = []") (simp_all add: calculateGrowth_empty calculateGrowth_nonempty)

theorem fails_iff_no_regime_witness:
  "(\<exists>e. calculateGrowth exEmpty = Inl e) \<and> (\<exists>snaps. calculateGrowth exDegenerate = Inr snaps)"
  using fails_iff_no_regime [of exEmpty] fails_iff_no_regime [of exDegenerate]
  by (simp add: exEmpty_def exDegenerate_def)

subsection \<open>Balance, contributions and growth\<close>

lemma stateAfter_balance_identity:
  "\<forall>s \<in> set (yearlyBalances (stateAfter inp sp a k)). balance s = contributions s + growth s"
proof -
  have "\<And>m st s. yearlyBalances (yearEnd inp sp a m st) = yearlyBalances st @ [s] \<Longrightarrow>
          balance s = contributions s + growth s"
    by (simp add: yearEnd_def Let_def)
  then obtain later where
    "yearlyBalances (stateAfter inp sp a k) = yearlyBalances (initialState inp sp a) @ later"
    "\<forall>s \<in> set later. balance s = contributions s + growth s"
    using stateAfter_snapshots [of inp sp a "\<lambda>s. balance s = contributions s + growth s" k]
    by blast
  then show ?thesis using initialState_yearlyBalances [of inp sp a] by auto
qed

text \<open>
  Claim C5. On every input with a regime, every snapshot of the returned sequence has
  \<open>balance = contributions + growth\<close>, the first one included. (Exact on the reals; the
  rounding of the subtraction in floating point is what the tolerance of the design is for.)
\<close>

theorem balance_is_contributions_plus_growth:
  assumes "periods inp \<noteq> []"
  shows "\<exists>snaps. calculateGrowth inp = Inr snaps \<and>
           (\<forall>s \<in> set snaps. balance s = contributions s + growth s)"
  using assms stateAfter_balance_identity
  by (simp add: calculateGrowth_nonempty finalState_def)

theorem balance_is_contributions_plus_growth_witness:
  "periods exSpend \<noteq> [] \<and>
   (\<exists>snaps. calculateGrowth exSpend = Inr snaps \<and> length snaps = 2 \<and>
      (\<forall>s \<in> set snaps. balance s = contributions s + growth s))"
proof -
  have ne: "periods exSpend \<noteq> []" by (simp add: exSpend_def)
  from balance_is_contributions_plus_growth [OF ne] obtain snaps where
    "calculateGrowth exSpend = Inr snaps" "\<forall>s \<in> set snaps. balance s = contributions s + growth s"
    by blast
  moreover have "length (projr (calculateGrowth exSpend)) = 2"
    by (simp add: engine_defs exSpend_def)
  ultimately show ?thesis using ne by auto
qed

subsection \<open>The inflation-adjusted balance\<close>

text \<open>
  Claim C8. With an inflation rate of 0 (given, or left to its default), every snapshot has
  \<open>realBalance = balance\<close>.
\<close>

theorem realBalance_is_balance_without_inflation:
  assumes "periods inp \<noteq> []" and "inflationRate_dflt inp = 0"
  shows "\<exists>snaps. calculateGrowth inp = Inr snaps \<and> (\<forall>s \<in> set snaps. realBalance s = balance s)"
  using assms realBalance_eq_when_no_inflation
  by (simp add: calculateGrowth_nonempty finalState_def)

theorem realBalance_is_balance_without_inflation_witness:
  "periods exYear \<noteq> [] \<and> inflationRate_dflt exYear = 0 \<and>
   (\<exists>snaps. calculateGrowth exYear = Inr snaps \<and> length snaps = 2 \<and>
      (\<forall>s \<in> set snaps. realBalance s = balance s))"
proof -
  have ne: "periods exYear \<noteq> []" and infl: "inflationRate_dflt exYear = 0"
    by (simp_all add: exYear_def inflationRate_dflt_def)
  from realBalance_is_balance_without_inflation [OF ne infl] obtain snaps where
    "calculateGrowth exYear = Inr snaps" "\<forall>s \<in> set snaps. realBalance s = balance s"
    by blast
  moreover have "length (projr (calculateGrowth exYear)) = 2"
    by (simp add: engine_defs exYear_def)
  ultimately show ?thesis using ne infl by auto
qed

text \<open>
  Claim C7 as stated fails: a snapshot whose balance is zero or negative has a real balance
  that is not below it. On the overdrawn account the snapshot at age 31 has balance
  \<open>-1000\<close> and real balance \<open>-1000 / 1.02\<close>, which is greater.
\<close>

theorem realBalance_below_balance_counterexample:
  "0 < inflationRate_dflt exOverdrawn \<and>
   calculateGrowth exOverdrawn =
     Inr [\<lparr>age = 30, balance = - 1000, realBalance = - 1000, contributions = - 1000,
           growth = 0, withdrawalRate = 0, taxPaid = 0\<rparr>,
          \<lparr>age = 31, balance = - 1000, realBalance = - (50000 / 51), contributions = - 1000,
           growth = 0, withdrawalRate = 0, taxPaid = 0\<rparr>] \<and>
   \<not> realBalance (projr (calculateGrowth exOverdrawn) ! 1)
       < balance (projr (calculateGrowth exOverdrawn) ! 1)"
  by (simp add: engine_defs exOverdrawn_def)

text \<open>
  Claim C7, amended. With an inflation rate above 0, every snapshot after the first has
  its real balance on the side of zero of its balance: below a positive balance, equal to
  a zero balance, above a negative balance.
\<close>

theorem realBalance_below_positive_balance:
  assumes "periods inp \<noteq> []" and "0 < inflationRate_dflt inp"
  shows "\<exists>snaps. calculateGrowth inp = Inr snaps \<and>
           (\<forall>s \<in> set (tl snaps).
              (0 < balance s \<longrightarrow> realBalance s < balance s) \<and>
              (balance s = 0 \<longrightarrow> realBalance s = balance s) \<and>
              (balance s < 0 \<longrightarrow> balance s < realBalance s))"
  using assms realBalance_when_inflation
  by (simp add: calculateGrowth_nonempty finalState_def)

theorem realBalance_below_positive_balance_witness:
  "periods exInflation \<noteq> [] \<and> 0 < inflationRate_dflt exInflation \<and>
   (\<exists>snaps. calculateGrowth exInflation = Inr snaps \<and> 
      tl snaps \<noteq> [] \<and> (\<forall>s \<in> set (tl snaps). 0 < balance s \<and> realBalance s < balance s))"
proof -
  have ne: "periods exInflation \<noteq> []" and infl: "0 < inflationRate_dflt exInflation"
    by (simp_all add: exInflation_def inflationRate_dflt_def)
  from realBalance_below_positive_balance [OF ne infl] obtain snaps where
    snaps: "calculateGrowth exInflation = Inr snaps"
    and below: "\<forall>s \<in> set (tl snaps). 0 < balance s \<longrightarrow> realBalance s < balance s"
    by blast
  have "tl (projr (calculateGrowth exInflation)) \<noteq> [] \<and>
        (\<forall>s \<in> set (tl (projr (calculateGrowth exInflation))). 0 < balance s)"
    by (simp add: engine_defs exInflation_def)
  with snaps below show ?thesis using ne infl by auto
qed

subsection \<open>The cumulative tax\<close>

lemma sorted_le_last:
  fixes xs :: "real list"
  shows "sorted xs \<Longrightarrow> x \<in> set xs \<Longrightarrow> x \<le> last xs"
  by (induction xs) auto

lemma sorted_snoc_last:
  fixes xs :: "real list"
  assumes "sorted xs" "xs \<noteq> []" "last xs \<le> y"
  shows "sorted (xs @ [y])"
proof -
  have "x \<le> y" if "x \<in> set xs" for x
    using sorted_le_last [OF assms(1) that] assms(3) by simp
  with assms(1) show ?thesis by (simp add: sorted_append)
qed

text \<open>
  The tax of a year is \<open>b * (rate / 100) * 0.30\<close> for the balance \<open>b\<close> before the tax, and
  the snapshot shows \<open>b\<close> less the tax. With the yearly fraction \<open>rate / 100 * 0.30\<close> in
  \<open>[0, 1)\<close> a snapshot balance that is not negative comes from a \<open>b\<close> that is not negative,
  so the tax of that year is not negative.
\<close>

lemma taxPaid_sorted_invariant:
  assumes en: "iskEnabled inp" and r0: "0 \<le> iskRate inp" and r1: "iskRate inp < 1000 / 3"
  shows "yearlyBalances (stateAfter inp sp a k) \<noteq> [] \<and>
         taxPaid (last (yearlyBalances (stateAfter inp sp a k))) =
           cumulativeTaxPaid (stateAfter inp sp a k) \<and>
         ((\<forall>s \<in> set (tl (yearlyBalances (stateAfter inp sp a k))). 0 \<le> balance s) \<longrightarrow>
            sorted (map taxPaid (yearlyBalances (stateAfter inp sp a k))))"
proof (induction k)
  case 0
  show ?case using initialState_yearlyBalances [of inp sp a] by auto
next
  case (Suc k)
  let ?prev = "stateAfter inp sp a k"
  let ?st = "monthStep inp sp a (Suc k) ?prev"
  show ?case
  proof (cases "Suc k mod 12 = 0")
    case False
    with Suc show ?thesis by (simp add: loopBody_def Let_def)
  next
    case True
    then have next_eq: "stateAfter inp sp a (Suc k) = yearEnd inp sp a (Suc k) ?st"
      by (simp add: loopBody_def Let_def)
    obtain s where s: "yearlyBalances (yearEnd inp sp a (Suc k) ?st) = yearlyBalances ?prev @ [s]"
        "balance s = balance_var (yearEnd inp sp a (Suc k) ?st)"
        "taxPaid s = cumulativeTaxPaid (yearEnd inp sp a (Suc k) ?st)"
      using yearEnd_pushes [of inp sp a "Suc k" ?st] by auto
    let ?b = "balance_var ?st"
    have bal: "balance s = ?b - ?b * (iskRate inp / 100) * 0.30"
      and tax: "taxPaid s = cumulativeTaxPaid ?prev + ?b * (iskRate inp / 100) * 0.30"
      using s yearEnd_tax [OF en, of sp a "Suc k" ?st] by simp_all
    have ne: "yearlyBalances ?prev \<noteq> []" using Suc by simp
    have "sorted (map taxPaid (yearlyBalances ?prev @ [s]))"
      if nonneg: "\<forall>x \<in> set (tl (yearlyBalances ?prev @ [s])). 0 \<le> balance x"
    proof -
      from nonneg ne have prev_nonneg: "\<forall>x \<in> set (tl (yearlyBalances ?prev)). 0 \<le> balance x"
        and "0 \<le> balance s" by auto
      then have "0 \<le> ?b * (1 - iskRate inp * 3 / 1000)" using bal by (simp add: algebra_simps)
      moreover have "0 < 1 - iskRate inp * 3 / 1000" using r1 by simp
      ultimately have "0 \<le> ?b" by (simp add: zero_le_mult_iff)
      then have "0 \<le> ?b * (iskRate inp / 100) * 0.30" using r0 by simp
      then have "taxPaid (last (yearlyBalances ?prev)) \<le> taxPaid s" using tax Suc by simp
      moreover have "sorted (map taxPaid (yearlyBalances ?prev))" using Suc prev_nonneg by simp
      ultimately have "sorted (map taxPaid (yearlyBalances ?prev) @ [taxPaid s])"
        using ne by (intro sorted_snoc_last) (simp_all add: last_map)
      then show ?thesis by simp
    qed
    then show ?thesis using s next_eq by simp
  qed
qed

text \<open>
  Claim C6 as stated fails: the tax of a year is a fraction of the balance whatever its
  sign, so a negative balance lowers the cumulative tax. On the depletion input the balance
  before the tax at age 31 is \<open>-200\<close>; the cumulative tax goes from \<open>0\<close> to \<open>-1.5\<close>.
\<close>

theorem taxPaid_nondecreasing_counterexample:
  "iskTax exSpend = Some \<lparr>enabled = True, governmentBorrowingRate = 2.5\<rparr> \<and>
   calculateGrowth exSpend =
     Inr [\<lparr>age = 30, balance = 1000, realBalance = 1000, contributions = 1000, growth = 0,
           withdrawalRate = 120, taxPaid = 0\<rparr>,
          \<lparr>age = 31, balance = - (397 / 2), realBalance = - (397 / 2), contributions = 1000,
           growth = - (2397 / 2), withdrawalRate = 0, taxPaid = - (3 / 2)\<rparr>] \<and>
   \<not> sorted (map taxPaid (projr (calculateGrowth exSpend)))"
  by (simp add: engine_defs exSpend_def)

text \<open>
  Claim C6, amended. With the tax enabled at a fixed rate \<open>r\<close>, \<open>0 \<le> r < 1000/3\<close> (a
  yearly tax fraction \<open>r / 100 * 0.30\<close> below 1), the cumulative \<open>taxPaid\<close> is
  non-decreasing across the returned sequence whenever no snapshot after the first has a
  negative balance.
\<close>

theorem taxPaid_nondecreasing_while_solvent:
  assumes "calculateGrowth inp = Inr snaps"
    and "iskTax inp = Some t" and "enabled t"
    and "0 \<le> governmentBorrowingRate t" and "governmentBorrowingRate t < 1000 / 3"
    and "\<forall>s \<in> set (tl snaps). 0 \<le> balance s"
  shows "sorted (map taxPaid snaps)"
proof -
  have ne: "periods inp \<noteq> []"
    using assms(1) calculateGrowth_empty [of inp] by auto
  then have snaps: "snaps = yearlyBalances (finalState inp)"
    using assms(1) by (simp add: calculateGrowth_nonempty)
  have "iskEnabled inp" "0 \<le> iskRate inp" "iskRate inp < 1000 / 3"
    using assms(2-5) by (simp_all add: iskEnabled_def iskRate_def)
  then show ?thesis
    using taxPaid_sorted_invariant [of inp] assms(6) unfolding snaps finalState_def by blast
qed

lemma exTax_trajectory:
  "calculateGrowth exTax =
     Inr [\<lparr>age = 30, balance = 1000000, realBalance = 1000000, contributions = 1000000,
           growth = 0, withdrawalRate = 0, taxPaid = 0\<rparr>,
          \<lparr>age = 31, balance = 992500, realBalance = 992500, contributions = 1000000,
           growth = - 7500, withdrawalRate = 0, taxPaid = 7500\<rparr>,
          \<lparr>age = 32, balance = 3940225 / 4, realBalance = 3940225 / 4,
           contributions = 1000000, growth = - (59775 / 4), withdrawalRate = 0,
           taxPaid = 59775 / 4\<rparr>]"
  by (simp add: engine_defs exTax_def)

theorem taxPaid_nondecreasing_while_solvent_witness:
  "sorted (map taxPaid
     [\<lparr>age = 30, balance = 1000000, realBalance = 1000000, contributions = 1000000,
       growth = 0, withdrawalRate = 0, taxPaid = 0\<rparr>,
      \<lparr>age = 31, balance = 992500, realBalance = 992500, contributions = 1000000,
       growth = - 7500, withdrawalRate = 0, taxPaid = 7500\<rparr>,
      \<lparr>age = 32, balance = 3940225 / 4, realBalance = 3940225 / 4,
       contributions = 1000000, growth = - (59775 / 4), withdrawalRate = 0,
       taxPaid = 59775 / 4\<rparr>])"
  by (rule taxPaid_nondecreasing_while_solvent
        [OF exTax_trajectory, of "\<lparr>enabled = True, governmentBorrowingRate = 2.5\<rparr>"])
     (simp_all add: exTax_def)

subsection \<open>The timeline\<close>

lemma hd_sort_key_Min:
  fixes f :: "'a \<Rightarrow> real"
  assumes "xs \<noteq> []"
  shows "f (hd (sort_key f xs)) = Min (f ` set xs)"
proof -
  have len: "length (sort_key f xs) = length xs" by simp
  then obtain z zs where zs: "sort_key f xs = z # zs"
    using assms by (cases "sort_key f xs") auto
  have "sorted (map f (sort_key f xs))" by (rule sorted_sort_key)
  then have le: "\<forall>y \<in> set zs. f z \<le> f y" by (simp add: zs)
  have set_eq: "set xs = insert z (set zs)"
    using set_sort [of f xs] by (simp add: zs)
  have "Min (f ` set xs) = f z"
  proof (rule Min_eqI)
    show "finite (f ` set xs)" by simp
    show "f z \<in> f ` set xs" by (simp add: set_eq)
    show "\<And>y. y \<in> f ` set xs \<Longrightarrow> f z \<le> y" using le by (auto simp add: set_eq)
  qed
  then show ?thesis by (simp add: zs)
qed

lemma startAgeOf_Min:
  "periods inp \<noteq> [] \<Longrightarrow> startAgeOf inp = Min (startAge ` set (periods inp))"
  by (simp add: startAgeOf_def sortPeriods_def hd_sort_key_Min)

lemma loop_not_entered:
  "months < real month \<Longrightarrow> loop inp sp a months month st = st"
  by (simp add: loop.simps)

text \<open>
  Claim C4. When the horizon age minus the minimum \<^verbatim>\<open>startAge\<close> of the regimes is zero or
  negative, the result is exactly one snapshot, at the start age, with balance, real balance
  and contributions equal to the initial balance, growth 0 and tax 0; the loop returns the
  state it is entered with, so no month is stepped.
\<close>

theorem no_span_single_snapshot:
  assumes "periods inp \<noteq> []"
    and "endAge_dflt inp - Min (startAge ` set (periods inp)) \<le> 0"
  shows "(\<exists>w. calculateGrowth inp =
            Inr [\<lparr>age = Min (startAge ` set (periods inp)), balance = initialAmount inp,
                  realBalance = initialAmount inp, contributions = initialAmount inp,
                  growth = 0, withdrawalRate = w, taxPaid = 0\<rparr>]) \<and>
         (\<forall>st. loop inp (sortPeriods (periods inp)) (Min (startAge ` set (periods inp)))
                 ((endAge_dflt inp - Min (startAge ` set (periods inp))) * 12) 1 st = st)"
proof -
  let ?a = "Min (startAge ` set (periods inp))"
  have a: "startAgeOf inp = ?a" using assms(1) by (rule startAgeOf_Min)
  have "(endAge_dflt inp - ?a) * 12 \<le> 0" using assms(2) by simp
  then have months: "(endAge_dflt inp - ?a) * 12 < real 1" by simp
  then have "nat \<lfloor>monthsOf inp\<rfloor> = 0" by (simp add: monthsOf_def a)
  then have "finalState inp = initialState inp (sortPeriods (periods inp)) ?a"
    by (simp add: finalState_def a)
  then have "\<exists>w. calculateGrowth inp =
            Inr [\<lparr>age = ?a, balance = initialAmount inp,
                  realBalance = initialAmount inp, contributions = initialAmount inp,
                  growth = 0, withdrawalRate = w, taxPaid = 0\<rparr>]"
    using assms(1) by (simp add: calculateGrowth_nonempty initialState_def Let_def)
  moreover have "\<forall>st. loop inp (sortPeriods (periods inp)) ?a ((endAge_dflt inp - ?a) * 12) 1 st = st"
    using months loop_not_entered by blast
  ultimately show ?thesis by blast
qed

theorem no_span_single_snapshot_witness:
  "periods exDegenerate \<noteq> [] \<and>
   endAge_dflt exDegenerate - Min (startAge ` set (periods exDegenerate)) = - 5 \<and>
   calculateGrowth exDegenerate =
     Inr [\<lparr>age = 30, balance = - 500, realBalance = - 500, contributions = - 500,
           growth = 0, withdrawalRate = 0, taxPaid = 0\<rparr>]"
proof -
  have ne: "periods exDegenerate \<noteq> []"
    and span: "endAge_dflt exDegenerate - Min (startAge ` set (periods exDegenerate)) = - 5"
    by (simp_all add: exDegenerate_def endAge_dflt_def)
  then have "endAge_dflt exDegenerate - Min (startAge ` set (periods exDegenerate)) \<le> 0"
    by simp
  from no_span_single_snapshot [OF ne this] obtain w where
    "calculateGrowth exDegenerate =
       Inr [\<lparr>age = Min (startAge ` set (periods exDegenerate)),
             balance = initialAmount exDegenerate, realBalance = initialAmount exDegenerate,
             contributions = initialAmount exDegenerate, growth = 0, withdrawalRate = w,
             taxPaid = 0\<rparr>]"
    by blast
  moreover have "withdrawalRate (hd (projr (calculateGrowth exDegenerate))) = 0"
    by (simp add: engine_defs exDegenerate_def)
  ultimately show ?thesis using ne span by (simp add: exDegenerate_def)
qed

subsection \<open>Active-regime resolution\<close>

lemma getPeriodForAge_find:
  "getPeriodForAge xs a = find (\<lambda>p. inInterval p a) xs"
  by (induction xs) (simp_all add: inInterval_def)

lemma find_as_filter:
  "find P xs = (case filter P xs of [] \<Rightarrow> None | x # _ \<Rightarrow> Some x)"
  by (induction xs) simp_all

lemma find_filter_conj:
  "find Q (filter C xs) = find (\<lambda>q. C q \<and> Q q) xs"
  by (induction xs) simp_all

text \<open>
  The head of a stably sorted list is the earliest element of the unsorted list that has
  the least key.
\<close>

lemma head_of_stable_sort:
  fixes f :: "'a \<Rightarrow> real"
  shows "(ys = [] \<and> sort_key f ys = []) \<or>
         (\<exists>z zs. sort_key f ys = z # zs \<and> (\<forall>r \<in> set ys. f z \<le> f r) \<and>
            find (\<lambda>q. \<forall>r \<in> set ys. f q \<le> f r) ys = Some z)"
proof (induction ys)
  case Nil
  show ?case by simp
next
  case (Cons y ys)
  show ?case
  proof (cases "ys = []")
    case True
    then show ?thesis by simp
  next
    case False
    with Cons obtain z zs where z: "sort_key f ys = z # zs" "\<forall>r \<in> set ys. f z \<le> f r"
      "find (\<lambda>q. \<forall>r \<in> set ys. f q \<le> f r) ys = Some z"
      by blast
    have z_in: "z \<in> set ys" using set_sort [of f ys] z(1) by auto
    show ?thesis
    proof (cases "f y \<le> f z")
      case True
      then have "\<forall>r \<in> set (y # ys). f y \<le> f r" using z(2) by auto
      then show ?thesis using True z(1) by simp
    next
      case False
      then have lt: "f z < f y" by simp
      have same: "find (\<lambda>q. \<forall>r \<in> set (y # ys). f q \<le> f r) ys =
            find (\<lambda>q. \<forall>r \<in> set ys. f q \<le> f r) ys"
      proof (rule find_cong [OF refl])
        fix q assume "q \<in> set ys"
        show "(\<forall>r \<in> set (y # ys). f q \<le> f r) = (\<forall>r \<in> set ys. f q \<le> f r)"
          using lt z_in by fastforce
      qed
      have "\<not> f y \<le> f z" using lt by simp
      then have "\<not> (\<forall>r \<in> set (y # ys). f y \<le> f r)"
        using z_in by (metis list.set_intros(2))
      then have "find (\<lambda>q. \<forall>r \<in> set (y # ys). f q \<le> f r) (y # ys) =
                 find (\<lambda>q. \<forall>r \<in> set (y # ys). f q \<le> f r) ys"
        by (simp only: find.simps if_False)
      then have "find (\<lambda>q. \<forall>r \<in> set (y # ys). f q \<le> f r) (y # ys) = Some z"
        by (simp only: same z(3))
      moreover have "\<forall>r \<in> set (y # ys). f z \<le> f r" using z(2) lt by simp
      moreover have "sort_key f (y # ys) = z # insort_key f y zs" using False z(1) by simp
      ultimately show ?thesis by blast
    qed
  qed
qed

lemma find_stable_sort:
  fixes f :: "'a \<Rightarrow> real"
  shows "find C (sort_key f xs) =
         find (\<lambda>q. C q \<and> (\<forall>r \<in> set xs. C r \<longrightarrow> f q \<le> f r)) xs"
proof -
  have "find C (sort_key f xs) =
        (case sort_key f (filter C xs) of [] \<Rightarrow> None | x # _ \<Rightarrow> Some x)"
    by (simp only: find_as_filter [of C] filter_sort)
  also have "\<dots> = find (\<lambda>q. \<forall>r \<in> set (filter C xs). f q \<le> f r) (filter C xs)"
    using head_of_stable_sort [of "filter C xs" f] by auto
  also have "\<dots> = find (\<lambda>q. C q \<and> (\<forall>r \<in> set (filter C xs). f q \<le> f r)) xs"
    by (rule find_filter_conj)
  also have "\<dots> = find (\<lambda>q. C q \<and> (\<forall>r \<in> set xs. C r \<longrightarrow> f q \<le> f r)) xs"
    by (rule find_cong [OF refl]) auto
  finally show ?thesis .
qed

text \<open>
  Claim C10. The copy of the regimes is sorted by a stable sort on \<^verbatim>\<open>startAge\<close> alone and
  scanned for the first match, so the active regime, in terms of the list the caller
  supplied, is the earliest element of that list among the regimes that contain the age
  and have the least \<^verbatim>\<open>startAge\<close> of those: regimes that share a \<^verbatim>\<open>startAge\<close> are
  taken in the caller's order. Every lookup of the engine (each month, each snapshot's
  withdrawal rate) is \<open>getPeriodForAge\<close> on that sorted copy.
\<close>

theorem ties_resolved_in_caller_order:
  "getPeriodForAge (sortPeriods ps) a =
     find (\<lambda>q. inInterval q a \<and> (\<forall>r \<in> set ps. inInterval r a \<longrightarrow> startAge q \<le> startAge r)) ps"
  by (simp only: getPeriodForAge_find sortPeriods_def find_stable_sort)

theorem ties_resolved_in_caller_order_witness:
  "getPeriodForAge (sortPeriods [regimeB, regimeA]) 35 = Some regimeB \<and>
   getPeriodForAge (sortPeriods [regimeA, regimeB]) 35 = Some regimeA"
  using ties_resolved_in_caller_order [of "[regimeB, regimeA]" 35]
    ties_resolved_in_caller_order [of "[regimeA, regimeB]" 35]
  by (simp add: inInterval_def regimeA_def regimeB_def)

lemma monthStep_no_regime:
  "getPeriodForAge sp (a0 + (real m - 1) / 12) = None \<Longrightarrow>
   monthStep inp sp a0 m st =
     st\<lparr>balance_var := balance_var st * (1 + annualReturn_in inp / 100 / 12),
        inflationMultiplier := inflationMultiplier st * monthlyInflationFactor inp\<rparr>"
  by (simp add: monthStep_def Let_def effectiveReturn_def)

text \<open>
  Claim C3. The engine resolves the active regime on the copy of the caller's list sorted
  by ascending \<^verbatim>\<open>startAge\<close> (a sorted permutation of it): the regime found for an age is
  the one at the least position of that copy whose interval \<open>[startAge, endAge)\<close> contains
  the age, and none is found exactly when no regime contains the age. In a month without
  an active regime the balance only grows by the global rate (divided by 100 and by 12)
  and the inflation multiplier advances; no contribution or spending is applied and the
  contributions total is unchanged.
\<close>

theorem active_regime_is_first_match:
  "(let sp = sortPeriods (periods inp) in
     sorted (map startAge sp) \<and> mset sp = mset (periods inp) \<and>
     (\<forall>a p. (getPeriodForAge sp a = Some p) =
        (\<exists>i < length sp. sp ! i = p \<and> inInterval p a \<and> (\<forall>j < i. \<not> inInterval (sp ! j) a))) \<and>
     (\<forall>a. (getPeriodForAge sp a = None) = (\<forall>p \<in> set (periods inp). \<not> inInterval p a)) \<and>
     (\<forall>a0 m st. getPeriodForAge sp (a0 + (real m - 1) / 12) = None \<longrightarrow>
        monthStep inp sp a0 m st =
          st\<lparr>balance_var := balance_var st * (1 + annualReturn_in inp / 100 / 12),
             inflationMultiplier := inflationMultiplier st * monthlyInflationFactor inp\<rparr>))"
proof -
  let ?sp = "sortPeriods (periods inp)"
  have f1: "sorted (map startAge ?sp)" by (simp add: sortPeriods_def)
  have f2: "mset ?sp = mset (periods inp)" by (simp add: sortPeriods_def)
  have f3: "\<forall>a p. (getPeriodForAge ?sp a = Some p) =
        (\<exists>i < length ?sp. ?sp ! i = p \<and> inInterval p a \<and> (\<forall>j < i. \<not> inInterval (?sp ! j) a))"
  proof (intro allI)
    fix a p
    have "(find (\<lambda>q. inInterval q a) ?sp = Some p) =
          (\<exists>i < length ?sp. inInterval (?sp ! i) a \<and> p = ?sp ! i \<and>
             (\<forall>j < i. \<not> inInterval (?sp ! j) a))"
      by (rule find_Some_iff)
    also have "\<dots> = (\<exists>i < length ?sp. ?sp ! i = p \<and> inInterval p a \<and>
             (\<forall>j < i. \<not> inInterval (?sp ! j) a))"
      by auto
    finally show "(getPeriodForAge ?sp a = Some p) =
        (\<exists>i < length ?sp. ?sp ! i = p \<and> inInterval p a \<and> (\<forall>j < i. \<not> inInterval (?sp ! j) a))"
      by (simp only: getPeriodForAge_find)
  qed
  have f4: "\<forall>a. (getPeriodForAge ?sp a = None) = (\<forall>p \<in> set (periods inp). \<not> inInterval p a)"
    by (auto simp add: getPeriodForAge_find find_None_iff sortPeriods_def)
  have f5: "\<forall>a0 m st. getPeriodForAge ?sp (a0 + (real m - 1) / 12) = None \<longrightarrow>
        monthStep inp ?sp a0 m st =
          st\<lparr>balance_var := balance_var st * (1 + annualReturn_in inp / 100 / 12),
             inflationMultiplier := inflationMultiplier st * monthlyInflationFactor inp\<rparr>"
    by (intro allI impI) (rule monthStep_no_regime)
  show ?thesis unfolding Let_def using f1 f2 f3 f4 f5 by (intro conjI)
qed

theorem active_regime_is_first_match_witness:
  "sortPeriods (periods exGap) = [regimeEarly, regimeLate] \<and>
   getPeriodForAge (sortPeriods (periods exGap)) 32 = Some regimeEarly \<and>
   getPeriodForAge (sortPeriods (periods exGap)) (30 + (real 85 - 1) / 12) = None \<and>
   monthStep exGap (sortPeriods (periods exGap)) 30 85
       \<lparr>balance_var = 500, inflationMultiplier = 1, cumulativeTaxPaid = 0,
        totalContributions = 700, yearlyBalances = []\<rparr> =
     \<lparr>balance_var = 505, inflationMultiplier = 1, cumulativeTaxPaid = 0,
      totalContributions = 700, yearlyBalances = []\<rparr>"
proof -
  let ?sp = "sortPeriods (periods exGap)"
  have sp: "?sp = [regimeEarly, regimeLate]"
    by (simp add: exGap_def sortPeriods_def regimeEarly_def regimeLate_def)
  note first = active_regime_is_first_match [of exGap, unfolded Let_def]
  note some_iff = first [THEN conjunct2, THEN conjunct2, THEN conjunct1, rule_format]
  note none_iff = first [THEN conjunct2, THEN conjunct2, THEN conjunct2, THEN conjunct1,
      rule_format]
  note no_flow = first [THEN conjunct2, THEN conjunct2, THEN conjunct2, THEN conjunct2,
      rule_format]
  have "0 < length ?sp \<and> ?sp ! 0 = regimeEarly \<and> inInterval regimeEarly 32 \<and>
        (\<forall>j < 0. \<not> inInterval (?sp ! j) 32)"
    by (simp add: sp inInterval_def regimeEarly_def)
  then have "\<exists>i < length ?sp. ?sp ! i = regimeEarly \<and> inInterval regimeEarly 32 \<and>
        (\<forall>j < i. \<not> inInterval (?sp ! j) 32)"
    by (rule exI [of _ 0])
  then have early: "getPeriodForAge ?sp 32 = Some regimeEarly"
    by (simp only: some_iff)
  have "\<forall>p \<in> set (periods exGap). \<not> inInterval p (30 + (real 85 - 1) / 12)"
    by (simp add: exGap_def inInterval_def regimeEarly_def regimeLate_def)
  then have none: "getPeriodForAge ?sp (30 + (real 85 - 1) / 12) = None"
    by (simp only: none_iff)
  have "monthStep exGap ?sp 30 85
       \<lparr>balance_var = 500, inflationMultiplier = 1, cumulativeTaxPaid = 0,
        totalContributions = 700, yearlyBalances = []\<rparr> =
     \<lparr>balance_var = 505, inflationMultiplier = 1, cumulativeTaxPaid = 0,
      totalContributions = 700, yearlyBalances = []\<rparr>"
    by (subst no_flow [OF none])
       (simp add: exGap_def monthlyInflationFactor_def inflation_def inflationRate_dflt_def
          Math_pow_def)
  then show ?thesis using sp early none by (intro conjI)
qed

lemma getPeriodForAge_contains:
  "getPeriodForAge xs a = Some q \<Longrightarrow> startAge q \<le> a \<and> a < endAge q"
  by (induction xs) (auto split: if_splits)

lemma getPeriodForAge_without_empty:
  "startAge p = endAge p \<Longrightarrow> getPeriodForAge (removeAll p xs) a = getPeriodForAge xs a"
  by (induction xs) auto

lemma sortPeriods_removeAll:
  "sortPeriods (removeAll p ps) = removeAll p (sortPeriods ps)"
  by (simp add: sortPeriods_def removeAll_filter_not_eq filter_sort)

text \<open>
  Claim C9. If the regime list contains a regime with \<^verbatim>\<open>startAge\<close> equal to \<^verbatim>\<open>endAge\<close>,
  the engine returns a sequence of snapshots, that regime is the active regime of no age,
  and every lookup gives what it gives on the list without that regime: the regime adds
  no month of contribution or spending.
\<close>

theorem zero_length_regime_never_active:
  assumes "p \<in> set (periods inp)" and "startAge p = endAge p"
  shows "(\<exists>snaps. calculateGrowth inp = Inr snaps) \<and>
         (\<forall>a. getPeriodForAge (sortPeriods (periods inp)) a \<noteq> Some p) \<and>
         (\<forall>a. getPeriodForAge (sortPeriods (periods inp)) a =
               getPeriodForAge (sortPeriods (removeAll p (periods inp))) a)"
proof -
  have "periods inp \<noteq> []" using assms(1) by auto
  then have "\<exists>snaps. calculateGrowth inp = Inr snaps"
    by (simp add: calculateGrowth_nonempty)
  moreover have "getPeriodForAge (sortPeriods (periods inp)) a \<noteq> Some p" for a
    using getPeriodForAge_contains [of "sortPeriods (periods inp)" a p] assms(2) by auto
  moreover have "getPeriodForAge (sortPeriods (periods inp)) a =
               getPeriodForAge (sortPeriods (removeAll p (periods inp))) a" for a
    using assms(2) by (simp add: sortPeriods_removeAll getPeriodForAge_without_empty)
  ultimately show ?thesis by blast
qed

theorem zero_length_regime_never_active_witness:
  "regimeZero \<in> set (periods exZeroLength) \<and> startAge regimeZero = endAge regimeZero \<and>
   getPeriodForAge (sortPeriods (periods exZeroLength)) 30 \<noteq> Some regimeZero \<and>
   calculateGrowth exZeroLength =
     Inr [\<lparr>age = 30, balance = 1000, realBalance = 1000, contributions = 1000, growth = 0,
           withdrawalRate = 0, taxPaid = 0\<rparr>,
          \<lparr>age = 31, balance = 1000, realBalance = 1000, contributions = 1000, growth = 0,
           withdrawalRate = 0, taxPaid = 0\<rparr>]"
proof -
  have mem: "regimeZero \<in> set (periods exZeroLength)"
    and zero: "startAge regimeZero = endAge regimeZero"
    by (simp_all add: exZeroLength_def regimeZero_def)
  from zero_length_regime_never_active [OF mem zero]
  have "getPeriodForAge (sortPeriods (periods exZeroLength)) 30 \<noteq> Some regimeZero"
    by blast
  moreover have "calculateGrowth exZeroLength =
     Inr [\<lparr>age = 30, balance = 1000, realBalance = 1000, contributions = 1000, growth = 0,
           withdrawalRate = 0, taxPaid = 0\<rparr>,
          \<lparr>age = 31, balance = 1000, realBalance = 1000, contributions = 1000, growth = 0,
           withdrawalRate = 0, taxPaid = 0\<rparr>]"
    by (simp add: engine_defs exZeroLength_def regimeZero_def)
  ultimately show ?thesis using mem zero by blast
qed

subsection \<open>The trajectory and the monthly-step definition\<close>

lemma spec_active_getPeriodForAge:
  "spec_active inp x = getPeriodForAge (sortPeriods (periods inp)) x"
  by (simp add: spec_active_def getPeriodForAge_find sortPeriods_def)

lemma monthlyInflationFactor_powr:
  "monthlyInflationFactor inp = (1 + inflationRate_dflt inp / 100) powr (1 / 12)"
  by (simp add: monthlyInflationFactor_def Math_pow_def inflation_def)

lemma absState_loopBody:
  "absState (loopBody inp (sortPeriods (periods inp)) (spec_startAge inp) m st) =
   spec_month inp m (absState st)"
proof -
  let ?x = "spec_startAge inp + (real m - 1) / 12"
  have g: "getPeriodForAge (sortPeriods (periods inp)) ?x = spec_active inp ?x"
    by (simp only: spec_active_getPeriodForAge)
  show ?thesis
  proof (cases "spec_active inp ?x")
    case None
    with g show ?thesis
      by (cases "iskTax inp")
         (simp_all add: loopBody_def monthStep_def yearEnd_def spec_month_def absState_def
            Let_def effectiveReturn_def monthlyInflationFactor_powr iskEnabled_def
            iskRate_def)
  next
    case (Some r)
    with g show ?thesis
      by (cases "annualReturn r"; cases "iskTax inp")
         (simp_all add: loopBody_def monthStep_def yearEnd_def spec_month_def absState_def
            Let_def effectiveReturn_def monthlyInflationFactor_powr iskEnabled_def
            iskRate_def)
  qed
qed

lemma absState_stateAfter:
  "absState (stateAfter inp (sortPeriods (periods inp)) (spec_startAge inp) k) =
   spec_after inp k"
proof (induction k)
  case 0
  show ?case by (simp add: absState_def initialState_def Let_def)
next
  case (Suc k)
  then show ?case by (simp add: absState_loopBody)
qed


lemma initialState_spec_first:
  "yearlyBalances (initialState inp (sortPeriods (periods inp)) (spec_startAge inp)) =
   [spec_first inp]"
  by (cases "spec_active inp (spec_startAge inp)")
     (simp_all add: initialState_def Let_def spec_first_def
        spec_active_getPeriodForAge [symmetric])

lemma yearEnd_spec_snapshot:
  assumes "absState (yearEnd inp (sortPeriods (periods inp)) (spec_startAge inp) (12 * y) st) =
           spec_after inp (12 * y)"
  shows "yearlyBalances (yearEnd inp (sortPeriods (periods inp)) (spec_startAge inp) (12 * y) st) =
         yearlyBalances st @ [spec_snapshot inp y]"
proof -
  let ?tax = "balance_var st * (iskRate inp / 100) * 0.30"
  let ?b = "if iskEnabled inp then balance_var st - ?tax else balance_var st"
  have b: "s_balance (spec_after inp (12 * y)) = ?b"
    and i: "s_inflation (spec_after inp (12 * y)) = inflationMultiplier st"
    and c: "s_contributions (spec_after inp (12 * y)) = totalContributions st"
    and t: "s_tax (spec_after inp (12 * y)) =
            (if iskEnabled inp then cumulativeTaxPaid st + ?tax else cumulativeTaxPaid st)"
    using assms [symmetric] by (simp_all add: absState_def yearEnd_def Let_def)
  have age: "real (12 * y) / 12 = real y" by simp
  have g: "getPeriodForAge (sortPeriods (periods inp)) (spec_startAge inp + real y) =
           spec_active inp (spec_startAge inp + real y)"
    by (simp only: spec_active_getPeriodForAge)
  show ?thesis
  proof (cases "spec_active inp (spec_startAge inp + real y)")
    case None
    with g show ?thesis
      unfolding yearEnd_def spec_snapshot_def Let_def b i c t age
      by (simp add: inflation_def Math_pow_of_nat)
  next
    case (Some r)
    with g show ?thesis
      unfolding yearEnd_def spec_snapshot_def Let_def b i c t age
      by (simp add: inflation_def Math_pow_of_nat)
  qed
qed


lemma yearEnd_spec_snapshot_at:
  assumes "m = 12 * y"
    and "absState (yearEnd inp (sortPeriods (periods inp)) (spec_startAge inp) m st) =
         spec_after inp m"
  shows "yearlyBalances (yearEnd inp (sortPeriods (periods inp)) (spec_startAge inp) m st) =
         yearlyBalances st @ [spec_snapshot inp y]"
  using assms(2) unfolding assms(1) by (rule yearEnd_spec_snapshot)

lemma year_div_same: "Suc k mod 12 \<noteq> 0 \<Longrightarrow> Suc k div 12 = k div 12"
  by (simp add: div_Suc)

lemma year_div_next: "Suc k mod 12 = 0 \<Longrightarrow> Suc k div 12 = Suc (k div 12)"
  by (simp add: div_Suc)

lemma year_months: "Suc k mod 12 = 0 \<Longrightarrow> Suc k = 12 * Suc (k div 12)"
proof -
  assume a: "Suc k mod 12 = 0"
  then have "Suc k = 12 * (Suc k div 12)" by (metis mult_div_mod_eq add.right_neutral)
  then show ?thesis using a by (simp only: year_div_next)
qed

lemma upt_snoc_year: "[1 ..< Suc (Suc n)] = [1 ..< Suc n] @ [Suc n]"
  by simp

lemma stateAfter_spec_snapshots:
  "yearlyBalances (stateAfter inp (sortPeriods (periods inp)) (spec_startAge inp) k) =
   spec_first inp # map (spec_snapshot inp) [1 ..< Suc (k div 12)]"
proof (induction k)
  case 0
  show ?case by (simp add: initialState_spec_first)
next
  case (Suc k)
  let ?sp = "sortPeriods (periods inp)" and ?a = "spec_startAge inp"
  let ?st = "monthStep inp ?sp ?a (Suc k) (stateAfter inp ?sp ?a k)"
  show ?case
  proof (cases "Suc k mod 12 = 0")
    case False
    then have "Suc k div 12 = k div 12" by (rule year_div_same)
    with False Suc show ?thesis by (simp add: loopBody_def Let_def)
  next
    case True
    have k: "Suc k = 12 * Suc (k div 12)" using True by (rule year_months)
    have y: "Suc k div 12 = Suc (k div 12)" using True by (rule year_div_next)
    have next_eq: "stateAfter inp ?sp ?a (Suc k) = yearEnd inp ?sp ?a (Suc k) ?st"
      using True by (simp add: loopBody_def Let_def)
    have "absState (stateAfter inp ?sp ?a (Suc k)) = spec_after inp (Suc k)"
      by (rule absState_stateAfter)
    then have "absState (yearEnd inp ?sp ?a (Suc k) ?st) = spec_after inp (Suc k)"
      by (simp only: next_eq)
    with k have "yearlyBalances (yearEnd inp ?sp ?a (Suc k) ?st) =
               yearlyBalances ?st @ [spec_snapshot inp (Suc (k div 12))]"
      by (rule yearEnd_spec_snapshot_at)
    then have "yearlyBalances (stateAfter inp ?sp ?a (Suc k)) =
               yearlyBalances (stateAfter inp ?sp ?a k) @ [spec_snapshot inp (Suc (k div 12))]"
      by (simp only: next_eq monthStep_yearlyBalances)
    then have "yearlyBalances (stateAfter inp ?sp ?a (Suc k)) =
               (spec_first inp # map (spec_snapshot inp) [1 ..< Suc (k div 12)]) @
               [spec_snapshot inp (Suc (k div 12))]"
      by (simp only: Suc)
    also have "\<dots> = spec_first inp # map (spec_snapshot inp) [1 ..< Suc (Suc (k div 12))]"
      by (simp only: upt_snoc_year map_append list.map append_Cons)
    finally show ?thesis by (simp only: y)
  qed
qed


text \<open>
  Claim C1. On every input with a regime, the returned trajectory is the one recomputed
  from the monthly-step definition: the first snapshot, then for each full year the
  snapshot of the state after its twelfth month, where a month applies the effective
  monthly return (override or global rate, over 100 and over 12) to the balance, advances
  the inflation multiplier by \<open>(1 + inflation/100)\<close> to the power \<open>1/12\<close>, then adds the
  contribution and subtracts the spending scaled by the advanced multiplier, and a twelfth
  month then subtracts the tax (if enabled) before growth and real balance are taken.
\<close>

theorem trajectory_is_monthly_step_recomputation:
  assumes "periods inp \<noteq> []"
  shows "calculateGrowth inp = Inr (spec_trajectory inp)"
proof -
  have a: "startAgeOf inp = spec_startAge inp"
    using assms by (simp add: startAgeOf_Min spec_startAge_def)
  then have "nat \<lfloor>monthsOf inp\<rfloor> = spec_totalMonths inp"
    by (simp add: monthsOf_def spec_totalMonths_def)
  then have "finalState inp =
        stateAfter inp (sortPeriods (periods inp)) (spec_startAge inp) (spec_totalMonths inp)"
    by (simp add: finalState_def a)
  then have "yearlyBalances (finalState inp) = spec_trajectory inp"
    by (simp only: stateAfter_spec_snapshots spec_trajectory_def)
  then show ?thesis
    using calculateGrowth_nonempty [OF assms] by simp
qed

theorem trajectory_is_monthly_step_recomputation_witness:
  "periods exTax \<noteq> [] \<and>
   spec_trajectory exTax =
     [\<lparr>age = 30, balance = 1000000, realBalance = 1000000, contributions = 1000000,
       growth = 0, withdrawalRate = 0, taxPaid = 0\<rparr>,
      \<lparr>age = 31, balance = 992500, realBalance = 992500, contributions = 1000000,
       growth = - 7500, withdrawalRate = 0, taxPaid = 7500\<rparr>,
      \<lparr>age = 32, balance = 3940225 / 4, realBalance = 3940225 / 4,
       contributions = 1000000, growth = - (59775 / 4), withdrawalRate = 0,
       taxPaid = 59775 / 4\<rparr>]"
proof -
  have ne: "periods exTax \<noteq> []" by (simp add: exTax_def)
  from trajectory_is_monthly_step_recomputation [OF ne]
  have "Inr (spec_trajectory exTax) = calculateGrowth exTax" by (rule sym)
  then show ?thesis using ne by (simp only: exTax_trajectory sum.inject simp_thms)
qed

end
